theory Spec2Isabelle
  imports Main "HOL-Library.Word"
begin

unbundle bit_operations_syntax

section \<open>The data of \<open>VulkanCommandProcessor\<close>\<close>

text \<open>
  The members of \<open>class VulkanCommandProcessor\<close>
  (\<open>src/xenia/gpu/vulkan/vulkan_command_processor.h\<close>) that the submission
  bookkeeping, the layout caches and the dynamic stencil state consist of. Vulkan handles
  are opaque 64-bit values in the source; here a handle is a natural number and
  \<open>VK_NULL_HANDLE\<close> is 0. The counters are \<open>uint64_t\<close> and the stencil
  values and keys \<open>uint32_t\<close>: words of that width, whose \<open>+\<close> wraps as the
  unsigned arithmetic of the source does. The member names lose their trailing underscore.
\<close>

type_synonym VkHandle = nat
type_synonym uint32_t = "32 word"
type_synonym uint64_t = "64 word"

definition VK_NULL_HANDLE :: VkHandle where
  "VK_NULL_HANDLE = 0"

definition UINT8_MAX :: uint32_t where
  "UINT8_MAX = 0xFF"

definition kMaxFramesInFlight :: nat where
  "kMaxFramesInFlight = 3"

text \<open>\<open>struct CommandBuffer { VkCommandPool pool; VkCommandBuffer buffer; }\<close>\<close>

record CommandBuffer =
  pool :: VkHandle
  buffer :: VkHandle

text \<open>\<open>struct SparseBufferBind\<close>\<close>

record SparseBufferBind =
  bind_buffer :: VkHandle
  bind_offset :: nat
  bind_count :: uint32_t

text \<open>
  \<open>class PipelineLayout\<close>: the layout handle and the two texture descriptor set
  layouts it was built from.
\<close>

record PipelineLayout =
  pipeline_layout :: VkHandle
  descriptor_set_layout_textures_vertex_ref :: VkHandle
  descriptor_set_layout_textures_pixel_ref :: VkHandle

record VulkanCommandProcessor =
  device_lost :: bool
  fences_free :: "VkHandle list"
  semaphores_free :: "VkHandle list"
  submission_open :: bool
  submission_completed :: uint64_t
  current_submission_wait_semaphores :: "VkHandle list"
  current_submission_wait_stage_masks :: "uint32_t list"
  submissions_in_flight_fences :: "VkHandle list"
  submissions_in_flight_semaphores :: "(uint64_t \<times> VkHandle) list"
  frame_open :: bool
  frame_current :: uint64_t
  frame_completed :: uint64_t
  closed_frame_submissions :: "uint64_t list"
  command_buffers_writable :: "CommandBuffer list"
  command_buffers_submitted :: "(uint64_t \<times> CommandBuffer) list"
  deferred_command_buffer :: "nat list"
  sparse_memory_binds :: "nat list"
  sparse_buffer_binds :: "SparseBufferBind list"
  sparse_bind_wait_stage_mask :: uint32_t
  descriptor_set_layout_empty :: VkHandle
  descriptor_set_layouts_textures :: "uint32_t \<rightharpoonup> VkHandle"
  pipeline_layouts :: "uint32_t \<rightharpoonup> PipelineLayout"
  dynamic_stencil_compare_mask_front :: uint32_t
  dynamic_stencil_compare_mask_back :: uint32_t
  dynamic_stencil_write_mask_front :: uint32_t
  dynamic_stencil_write_mask_back :: uint32_t
  dynamic_stencil_reference_front :: uint32_t
  dynamic_stencil_reference_back :: uint32_t

text \<open>
  The state a newly constructed object has by its default member initializers: the flags
  false, the counters 0 (\<open>frame_current_\<close> 1), the containers empty, the ring of
  closed frames zero-filled (\<open>= {}\<close>), the handles null, the stencil masks
  \<open>UINT8_MAX\<close> and the stencil references 0. Members the header leaves without an
  initializer (viewport, scissor, the update flags) are not part of the record.
\<close>

definition initial_state :: VulkanCommandProcessor where
  "initial_state =
     \<lparr> device_lost = False,
       fences_free = [],
       semaphores_free = [],
       submission_open = False,
       submission_completed = 0,
       current_submission_wait_semaphores = [],
       current_submission_wait_stage_masks = [],
       submissions_in_flight_fences = [],
       submissions_in_flight_semaphores = [],
       frame_open = False,
       frame_current = 1,
       frame_completed = 0,
       closed_frame_submissions = replicate kMaxFramesInFlight 0,
       command_buffers_writable = [],
       command_buffers_submitted = [],
       deferred_command_buffer = [],
       sparse_memory_binds = [],
       sparse_buffer_binds = [],
       sparse_bind_wait_stage_mask = 0,
       descriptor_set_layout_empty = VK_NULL_HANDLE,
       descriptor_set_layouts_textures = Map.empty,
       pipeline_layouts = Map.empty,
       dynamic_stencil_compare_mask_front = UINT8_MAX,
       dynamic_stencil_compare_mask_back = UINT8_MAX,
       dynamic_stencil_write_mask_front = UINT8_MAX,
       dynamic_stencil_write_mask_back = UINT8_MAX,
       dynamic_stencil_reference_front = 0,
       dynamic_stencil_reference_back = 0 \<rparr>"

section \<open>Submission counters\<close>

text \<open>
  \<open>GetCurrentSubmission\<close> adds in \<open>uint64_t\<close>:
  \<open>submission_completed_ + uint64_t(submissions_in_flight_fences_.size()) + 1\<close>.
\<close>

definition GetCurrentSubmission :: "VulkanCommandProcessor \<Rightarrow> uint64_t" where
  "GetCurrentSubmission s =
     submission_completed s + of_nat (length (submissions_in_flight_fences s)) + 1"

definition GetCompletedSubmission :: "VulkanCommandProcessor \<Rightarrow> uint64_t" where
  "GetCompletedSubmission s = submission_completed s"

text \<open>
  \<open>AwaitAllQueueOperationsCompletion\<close> is defined in the header; the
  \<open>CheckSubmissionFenceAndDeviceLoss\<close> it calls is only declared there, so it is the
  parameter \<open>check\<close>: any function from the awaited submission and the state to the
  state. The result is the returned flag and the state the call leaves.
\<close>

definition AwaitAllQueueOperationsCompletion ::
  "(uint64_t \<Rightarrow> VulkanCommandProcessor \<Rightarrow> VulkanCommandProcessor) \<Rightarrow>
   VulkanCommandProcessor \<Rightarrow> bool \<times> VulkanCommandProcessor" where
  "AwaitAllQueueOperationsCompletion check s =
     (let s' = check (GetCurrentSubmission s) s
      in (\<not> submission_open s' \<and> submissions_in_flight_fences s' = [], s'))"

text \<open>
  The counters have not wrapped: the sum \<open>GetCurrentSubmission\<close> computes fits
  64 bits.
\<close>

definition submission_counter_fits :: "VulkanCommandProcessor \<Rightarrow> bool" where
  "submission_counter_fits s \<longleftrightarrow>
     unat (submission_completed s) + length (submissions_in_flight_fences s) + 1 < 2 ^ 64"

text \<open>
  A \<open>check\<close> that finds nothing to retire: what polling does while no completion signal
  is in flight.
\<close>

definition check_nothing_in_flight ::
  "uint64_t \<Rightarrow> VulkanCommandProcessor \<Rightarrow> VulkanCommandProcessor" where
  "check_nothing_in_flight await_submission s = s"

section \<open>Pipeline layout cache\<close>

text \<open>
  \<open>union PipelineLayoutKey\<close>: the bit-fields \<open>texture_count_pixel : 16\<close> and
  \<open>texture_count_vertex : 16\<close> share their storage with \<open>uint32_t key\<close>, the
  pixel count in the low bits (the header's comment). Storing a \<open>uint32_t\<close> into an
  unsigned bit-field of width 16 keeps its low 16 bits, hence the masks.
\<close>

definition PipelineLayoutKey :: "uint32_t \<Rightarrow> uint32_t \<Rightarrow> uint32_t" where
  "PipelineLayoutKey texture_count_pixel texture_count_vertex =
     (texture_count_pixel AND 0xFFFF) OR push_bit 16 (texture_count_vertex AND 0xFFFF)"

text \<open>
  Modelled from the spec: the body of \<open>GetPipelineLayout\<close>, which the header only
  declares. The spec (4.2): it "looks up by \<open>PipelineLayoutKey{texturesPixel,
  texturesVertex}\<close>; on miss, [...] builds and caches the composite pipeline-layout
  object". The cache is the header's \<open>pipeline_layouts_\<close>, an
  \<open>unordered_map\<close> from \<open>PipelineLayoutKey::key\<close> to \<open>PipelineLayout\<close>.
  How the object is built on a miss (resolving the two texture descriptor set layouts,
  creating the Vulkan layout) is the parameter \<open>build\<close>, which may change the
  state before the new object is stored. The returned pointer points at the map's node
  for the key; an \<open>unordered_map\<close> holds one node per key and never moves it, so
  the pointer is modelled by that key: two returned pointers are the same object exactly
  when the keys are equal.
\<close>

definition GetPipelineLayout ::
  "(uint32_t \<Rightarrow> uint32_t \<Rightarrow> VulkanCommandProcessor \<Rightarrow> PipelineLayout \<times> VulkanCommandProcessor) \<Rightarrow>
   uint32_t \<Rightarrow> uint32_t \<Rightarrow> VulkanCommandProcessor \<Rightarrow> uint32_t \<times> VulkanCommandProcessor" where
  "GetPipelineLayout build texture_count_pixel texture_count_vertex s =
     (let key = PipelineLayoutKey texture_count_pixel texture_count_vertex
      in case pipeline_layouts s key of
           Some found \<Rightarrow> (key, s)
         | None \<Rightarrow>
             (let (layout, s') = build texture_count_pixel texture_count_vertex s
              in (key, s'\<lparr>pipeline_layouts := (pipeline_layouts s')(key \<mapsto> layout)\<rparr>)))"

text \<open>
  A \<open>build\<close> to run the cache on concrete counts: the layout handle is the sum of the counts
  plus one, the texture set layouts are the empty one, the state is left alone.
\<close>

definition build_plain ::
  "uint32_t \<Rightarrow> uint32_t \<Rightarrow> VulkanCommandProcessor \<Rightarrow> PipelineLayout \<times> VulkanCommandProcessor" where
  "build_plain texture_count_pixel texture_count_vertex s =
     (\<lparr> pipeline_layout = Suc (unat texture_count_pixel + unat texture_count_vertex),
        descriptor_set_layout_textures_vertex_ref = descriptor_set_layout_empty s,
        descriptor_set_layout_textures_pixel_ref = descriptor_set_layout_empty s \<rparr>, s)"

section \<open>Facts about the counters\<close>

lemma unat_GetCurrentSubmission:
  "submission_counter_fits s \<Longrightarrow>
   unat (GetCurrentSubmission s) =
     unat (submission_completed s) + length (submissions_in_flight_fences s) + 1"
proof -
  assume fits: "submission_counter_fits s"
  let ?n = "length (submissions_in_flight_fences s)"
  from fits have n: "?n < 2 ^ 64"
    by (simp add: submission_counter_fits_def)
  have "unat (GetCurrentSubmission s) =
        (unat (submission_completed s) + unat (of_nat ?n :: uint64_t) + 1) mod 2 ^ 64"
    by (simp add: GetCurrentSubmission_def unat_word_ariths mod_simps)
  also from n have "unat (of_nat ?n :: uint64_t) = ?n"
    by (simp add: unat_of_nat)
  finally show ?thesis
    using fits by (simp add: submission_counter_fits_def)
qed

lemma completed_less_current:
  "submission_counter_fits s \<Longrightarrow> GetCompletedSubmission s < GetCurrentSubmission s"
  by (simp add: word_less_nat_alt unat_GetCurrentSubmission GetCompletedSubmission_def)

lemma word_succ_neq: "(x :: uint64_t) + 1 \<noteq> x"
  by simp

section \<open>Facts about the layout key\<close>

lemma mask16: "(0xFFFF :: uint32_t) = mask 16"
  by (simp add: mask_eq_exp_minus_1)

lemma take_bit_PipelineLayoutKey: "take_bit 16 (PipelineLayoutKey a b) = take_bit 16 a"
  unfolding PipelineLayoutKey_def mask16
  by (rule bit_word_eqI) (auto simp add: bit_simps)

lemma drop_bit_PipelineLayoutKey: "drop_bit 16 (PipelineLayoutKey a b) = take_bit 16 b"
  unfolding PipelineLayoutKey_def mask16
  by (rule bit_word_eqI) (auto simp add: bit_simps)

lemma take_bit_16_small: "(a::uint32_t) < 0x10000 \<Longrightarrow> take_bit 16 a = a"
  using less_mask_eq [of a 16] by (simp add: take_bit_eq_mask)

lemma PipelineLayoutKey_inj:
  assumes "a < 0x10000" "b < 0x10000" "a' < 0x10000" "b' < 0x10000"
    and "PipelineLayoutKey a b = PipelineLayoutKey a' b'"
  shows "a = a' \<and> b = b'"
proof -
  from assms(5) have "take_bit 16 (PipelineLayoutKey a b) = take_bit 16 (PipelineLayoutKey a' b')"
    and "drop_bit 16 (PipelineLayoutKey a b) = drop_bit 16 (PipelineLayoutKey a' b')"
    by simp_all
  then have "take_bit 16 a = take_bit 16 a'" and "take_bit 16 b = take_bit 16 b'"
    by (simp_all add: take_bit_PipelineLayoutKey drop_bit_PipelineLayoutKey)
  with assms(1-4) show ?thesis
    by (simp add: take_bit_16_small)
qed

text \<open>
  The aliasing does not depend on how the key is packed: the cache is keyed by a
  \<open>uint32_t\<close>, and no function from two \<open>uint32_t\<close> counts to a
  \<open>uint32_t\<close> key tells all pairs apart.
\<close>

lemma uint32_keys_alias:
  fixes key_of :: "uint32_t \<Rightarrow> uint32_t \<Rightarrow> uint32_t"
  shows "\<exists>a b a' b'. (a, b) \<noteq> (a', b') \<and> key_of a b = key_of a' b'"
proof (rule ccontr)
  assume "\<not> ?thesis"
  then have "inj (\<lambda>p. key_of (fst p) (snd p))"
    by (auto simp add: inj_on_def prod_eq_iff)
  then have "card (UNIV :: (uint32_t \<times> uint32_t) set) \<le> card (UNIV :: uint32_t set)"
    by (rule card_inj_on_le) simp_all
  then show False
    by (simp add: card_word flip: UNIV_Times_UNIV)
qed

lemma fst_GetPipelineLayout:
  "fst (GetPipelineLayout build a b s) = PipelineLayoutKey a b"
  by (simp add: GetPipelineLayout_def Let_def split: option.splits prod.splits)

lemma GetPipelineLayout_cached:
  "pipeline_layouts (snd (GetPipelineLayout build a b s)) (PipelineLayoutKey a b) \<noteq> None"
  by (simp add: GetPipelineLayout_def Let_def split: option.splits prod.splits)

lemma GetPipelineLayout_hit:
  "pipeline_layouts s (PipelineLayoutKey a b) \<noteq> None \<Longrightarrow>
   GetPipelineLayout build a b s = (PipelineLayoutKey a b, s)"
  by (auto simp add: GetPipelineLayout_def Let_def split: option.splits prod.splits)

section \<open>Claims settled on the header's code\<close>

text \<open>
  C4. In the initial state of the dynamic render-state tracker, before any update command
  has been emitted, the stencil compare masks and write masks of the front and of the back
  face are the full mask 0xFF, both stencil references are 0, and every front-face value
  equals the back-face value.
\<close>

theorem initial_dynamic_stencil_state:
  "dynamic_stencil_compare_mask_front initial_state = 0xFF \<and>
   dynamic_stencil_compare_mask_back initial_state = 0xFF \<and>
   dynamic_stencil_write_mask_front initial_state = 0xFF \<and>
   dynamic_stencil_write_mask_back initial_state = 0xFF \<and>
   dynamic_stencil_reference_front initial_state = 0 \<and>
   dynamic_stencil_reference_back initial_state = 0 \<and>
   dynamic_stencil_compare_mask_front initial_state =
     dynamic_stencil_compare_mask_back initial_state \<and>
   dynamic_stencil_write_mask_front initial_state =
     dynamic_stencil_write_mask_back initial_state \<and>
   dynamic_stencil_reference_front initial_state =
     dynamic_stencil_reference_back initial_state"
  by (simp add: initial_state_def UINT8_MAX_def)

text \<open>
  C10, as stated, fails where the 64-bit sum wraps: with \<open>submission_completed_\<close> at
  \<open>UINT64_MAX\<close> and nothing in flight \<open>GetCurrentSubmission()\<close> is 0, which is
  not greater than \<open>GetCompletedSubmission()\<close>.
\<close>

theorem current_submission_wraps:
  "GetCurrentSubmission (initial_state\<lparr>submission_completed := 0xFFFFFFFFFFFFFFFF\<rparr>) = 0 \<and>
   GetCompletedSubmission (initial_state\<lparr>submission_completed := 0xFFFFFFFFFFFFFFFF\<rparr>)
     = 0xFFFFFFFFFFFFFFFF \<and>
   \<not> GetCompletedSubmission (initial_state\<lparr>submission_completed := 0xFFFFFFFFFFFFFFFF\<rparr>)
       < GetCurrentSubmission (initial_state\<lparr>submission_completed := 0xFFFFFFFFFFFFFFFF\<rparr>)"
  by (simp add: GetCurrentSubmission_def GetCompletedSubmission_def initial_state_def)

text \<open>
  C10, amended. In every state \<open>GetCurrentSubmission()\<close> is
  \<open>GetCompletedSubmission()\<close> plus the number of in-flight submission fences plus one,
  computed modulo \<open>2^64\<close>; it is strictly greater than \<open>GetCompletedSubmission()\<close>,
  also when no submission is open or in flight, exactly when that sum does not wrap
  (completed + in-flight fences + 1 < \<open>2^64\<close>). The number of fences is a
  \<open>size_t\<close>, hence below \<open>2^64\<close>.
\<close>

theorem current_submission_is_completed_plus_in_flight_plus_one:
  "length (submissions_in_flight_fences s) < 2 ^ 64 \<Longrightarrow>
   GetCurrentSubmission s =
     GetCompletedSubmission s + of_nat (length (submissions_in_flight_fences s)) + 1 \<and>
   unat (GetCurrentSubmission s) =
     (unat (GetCompletedSubmission s) + length (submissions_in_flight_fences s) + 1) mod 2 ^ 64 \<and>
   (GetCompletedSubmission s < GetCurrentSubmission s) = submission_counter_fits s"
proof -
  assume n: "length (submissions_in_flight_fences s) < 2 ^ 64"
  let ?n = "length (submissions_in_flight_fences s)"
  let ?c = "unat (submission_completed s)"
  have eq: "GetCurrentSubmission s = GetCompletedSubmission s + of_nat ?n + 1"
    by (simp add: GetCurrentSubmission_def GetCompletedSubmission_def)
  from n have un: "unat (of_nat ?n :: uint64_t) = ?n"
    by (simp add: unat_of_nat)
  have "unat (GetCurrentSubmission s) = (?c + unat (of_nat ?n :: uint64_t) + 1) mod 2 ^ 64"
    by (simp add: GetCurrentSubmission_def unat_word_ariths mod_simps)
  with un have m: "unat (GetCurrentSubmission s) = (?c + ?n + 1) mod 2 ^ 64"
    by simp
  have c: "?c < 2 ^ 64"
    using unsigned_less [of "submission_completed s", where 'a = nat] by simp
  have "(GetCompletedSubmission s < GetCurrentSubmission s) = submission_counter_fits s"
  proof (cases "submission_counter_fits s")
    case True
    then show ?thesis by (simp add: completed_less_current)
  next
    case False
    then have big: "2 ^ 64 \<le> ?c + ?n + 1"
      by (simp add: submission_counter_fits_def)
    from n c have "?c + ?n + 1 < 2 * 2 ^ 64" by simp
    with big have "(?c + ?n + 1) mod 2 ^ 64 = ?c + ?n + 1 - 2 ^ 64"
      by (simp add: mod_if)
    with m n have "unat (GetCurrentSubmission s) \<le> ?c" by simp
    with False show ?thesis
      by (simp add: word_less_nat_alt GetCompletedSubmission_def)
  qed
  with eq m show ?thesis
    by (simp add: GetCompletedSubmission_def)
qed

theorem current_submission_initially:
  "length (submissions_in_flight_fences initial_state) < 2 ^ 64 \<and>
   GetCurrentSubmission initial_state = 1 \<and>
   GetCompletedSubmission initial_state = 0 \<and>
   submission_counter_fits initial_state \<and>
   GetCompletedSubmission initial_state < GetCurrentSubmission initial_state"
proof -
  have n: "length (submissions_in_flight_fences initial_state) < 2 ^ 64"
    by (simp add: initial_state_def)
  have f: "submission_counter_fits initial_state"
    by (simp add: submission_counter_fits_def initial_state_def)
  from current_submission_is_completed_plus_in_flight_plus_one [OF n]
  have "(GetCompletedSubmission initial_state < GetCurrentSubmission initial_state) =
      submission_counter_fits initial_state"
    by (rule conjunct2 [THEN conjunct2])
  with f have "GetCompletedSubmission initial_state < GetCurrentSubmission initial_state"
    by blast
  with n f show ?thesis
    by (simp add: GetCurrentSubmission_def GetCompletedSubmission_def initial_state_def)
qed

text \<open>
  C1, as stated, fails twice. Once \<open>AwaitAllQueueOperationsCompletion()\<close> returns
  true the counters are not equal: in the initial state, where nothing is in flight, it
  returns true with \<open>GetCurrentSubmission() = 1\<close> and
  \<open>GetCompletedSubmission() = 0\<close>. And with a submission open and
  \<open>submission_completed_\<close> at \<open>UINT64_MAX\<close> the current submission is 0, not
  greater than the completed one.
\<close>

theorem await_all_leaves_counters_apart:
  "fst (AwaitAllQueueOperationsCompletion check_nothing_in_flight initial_state) \<and>
   GetCurrentSubmission
     (snd (AwaitAllQueueOperationsCompletion check_nothing_in_flight initial_state)) = 1 \<and>
   GetCompletedSubmission
     (snd (AwaitAllQueueOperationsCompletion check_nothing_in_flight initial_state)) = 0 \<and>
   submission_open
     (initial_state\<lparr>submission_open := True, submission_completed := 0xFFFFFFFFFFFFFFFF\<rparr>) \<and>
   \<not> GetCompletedSubmission
       (initial_state\<lparr>submission_open := True, submission_completed := 0xFFFFFFFFFFFFFFFF\<rparr>)
     < GetCurrentSubmission
       (initial_state\<lparr>submission_open := True, submission_completed := 0xFFFFFFFFFFFFFFFF\<rparr>)"
  by (simp add: AwaitAllQueueOperationsCompletion_def check_nothing_in_flight_def
      GetCurrentSubmission_def GetCompletedSubmission_def initial_state_def)

text \<open>
  C1, amended. In every state, so after every sequence of
  \<open>BeginSubmission\<close>/\<open>EndSubmission\<close> calls, \<open>GetCurrentSubmission() >
  GetCompletedSubmission()\<close> holds while a submission is open or in flight, as long as
  the 64-bit sum completed + in-flight fences + 1 has not wrapped; and once
  \<open>AwaitAllQueueOperationsCompletion()\<close> returns true, whatever
  \<open>CheckSubmissionFenceAndDeviceLoss\<close> did, the two counters are not equal:
  \<open>GetCurrentSubmission()\<close> is \<open>GetCompletedSubmission() + 1\<close>.
\<close>

theorem current_above_completed_and_one_apart_after_await:
  "((submission_open s \<or> submissions_in_flight_fences s \<noteq> []) \<and> submission_counter_fits s
      \<longrightarrow> GetCompletedSubmission s < GetCurrentSubmission s) \<and>
   (fst (AwaitAllQueueOperationsCompletion check s) \<longrightarrow>
      GetCurrentSubmission (snd (AwaitAllQueueOperationsCompletion check s)) =
        GetCompletedSubmission (snd (AwaitAllQueueOperationsCompletion check s)) + 1 \<and>
      GetCurrentSubmission (snd (AwaitAllQueueOperationsCompletion check s)) \<noteq>
        GetCompletedSubmission (snd (AwaitAllQueueOperationsCompletion check s)))"
proof (intro conjI impI)
  assume "(submission_open s \<or> submissions_in_flight_fences s \<noteq> []) \<and>
    submission_counter_fits s"
  then show "GetCompletedSubmission s < GetCurrentSubmission s"
    by (simp add: completed_less_current)
next
  let ?s' = "snd (AwaitAllQueueOperationsCompletion check s)"
  assume "fst (AwaitAllQueueOperationsCompletion check s)"
  then have empty: "submissions_in_flight_fences ?s' = []"
    by (simp add: AwaitAllQueueOperationsCompletion_def Let_def)
  then show one: "GetCurrentSubmission ?s' = GetCompletedSubmission ?s' + 1"
    by (simp add: GetCurrentSubmission_def GetCompletedSubmission_def)
  show "GetCurrentSubmission ?s' \<noteq> GetCompletedSubmission ?s'"
    unfolding one by (rule word_succ_neq)
qed

theorem current_above_completed_open_submission:
  "submission_open (initial_state\<lparr>submission_open := True\<rparr>) \<and>
   submission_counter_fits (initial_state\<lparr>submission_open := True\<rparr>) \<and>
   GetCompletedSubmission (initial_state\<lparr>submission_open := True\<rparr>)
     < GetCurrentSubmission (initial_state\<lparr>submission_open := True\<rparr>) \<and>
   fst (AwaitAllQueueOperationsCompletion check_nothing_in_flight initial_state) \<and>
   GetCurrentSubmission
     (snd (AwaitAllQueueOperationsCompletion check_nothing_in_flight initial_state)) =
   GetCompletedSubmission
     (snd (AwaitAllQueueOperationsCompletion check_nothing_in_flight initial_state)) + 1"
proof -
  have o: "submission_open (initial_state\<lparr>submission_open := True\<rparr>)"
    by simp
  have f: "submission_counter_fits (initial_state\<lparr>submission_open := True\<rparr>)"
    by (simp add: submission_counter_fits_def initial_state_def)
  have a: "fst (AwaitAllQueueOperationsCompletion check_nothing_in_flight initial_state)"
    by (simp add: AwaitAllQueueOperationsCompletion_def check_nothing_in_flight_def
        initial_state_def)
  from o f a
    current_above_completed_and_one_apart_after_await
      [of "initial_state\<lparr>submission_open := True\<rparr>" check_nothing_in_flight]
    current_above_completed_and_one_apart_after_await
      [of initial_state check_nothing_in_flight]
  show ?thesis by simp
qed

section \<open>Claims settled on the modelled layout cache\<close>

text \<open>
  C2, as stated, fails for counts that do not fit the key's 16-bit fields: the argument
  pairs (65536, 0) and (0, 0) are distinct, and \<open>GetPipelineLayout\<close> answers both
  with the object cached under key 0, the layout built for (0, 0).
\<close>

theorem GetPipelineLayout_counts_alias:
  "((0x10000 :: uint32_t), (0 :: uint32_t)) \<noteq> (0, 0) \<and>
   fst (GetPipelineLayout build_plain 0 0 initial_state) = 0 \<and>
   fst (GetPipelineLayout build_plain 0x10000 0
     (snd (GetPipelineLayout build_plain 0 0 initial_state))) = 0 \<and>
   pipeline_layouts (snd (GetPipelineLayout build_plain 0x10000 0
     (snd (GetPipelineLayout build_plain 0 0 initial_state)))) 0 =
   Some \<lparr> pipeline_layout = 1, descriptor_set_layout_textures_vertex_ref = 0,
     descriptor_set_layout_textures_pixel_ref = 0 \<rparr>"
  by (simp add: GetPipelineLayout_def PipelineLayoutKey_def build_plain_def initial_state_def
      VK_NULL_HANDLE_def)


text \<open>
  C2, amended. For every pair of arguments, a second call of \<open>GetPipelineLayout\<close>
  with the same arguments returns the same cached layout object as the first and leaves
  the state as the first left it (nothing is built again); and for every two distinct
  argument pairs whose four counts are all below \<open>2^16\<close>, the width of the key's
  fields, the returned layout objects are distinct.
\<close>

theorem GetPipelineLayout_same_object_and_distinct_in_range:
  "fst (GetPipelineLayout build a b (snd (GetPipelineLayout build a b s))) =
     fst (GetPipelineLayout build a b s) \<and>
   snd (GetPipelineLayout build a b (snd (GetPipelineLayout build a b s))) =
     snd (GetPipelineLayout build a b s) \<and>
   pipeline_layouts (snd (GetPipelineLayout build a b s))
     (fst (GetPipelineLayout build a b s)) \<noteq> None \<and>
   (a < 0x10000 \<and> b < 0x10000 \<and> a' < 0x10000 \<and> b' < 0x10000 \<and> (a, b) \<noteq> (a', b') \<longrightarrow>
      fst (GetPipelineLayout build a b s) \<noteq> fst (GetPipelineLayout build' a' b' t))"
proof -
  have hit: "GetPipelineLayout build a b (snd (GetPipelineLayout build a b s)) =
      (PipelineLayoutKey a b, snd (GetPipelineLayout build a b s))"
    by (rule GetPipelineLayout_hit) (rule GetPipelineLayout_cached)
  have "a < 0x10000 \<and> b < 0x10000 \<and> a' < 0x10000 \<and> b' < 0x10000 \<and> (a, b) \<noteq> (a', b') \<longrightarrow>
      PipelineLayoutKey a b \<noteq> PipelineLayoutKey a' b'"
    using PipelineLayoutKey_inj [of a b a' b'] by auto
  with hit show ?thesis
    by (simp add: fst_GetPipelineLayout GetPipelineLayout_cached)
qed

theorem GetPipelineLayout_one_two_and_two_one:
  "(1::uint32_t) < 0x10000 \<and> (2::uint32_t) < 0x10000 \<and> ((1::uint32_t), (2::uint32_t)) \<noteq> (2, 1) \<and>
   fst (GetPipelineLayout build_plain 1 2 initial_state) = 0x20001 \<and>
   fst (GetPipelineLayout build_plain 2 1 initial_state) = 0x10002 \<and>
   fst (GetPipelineLayout build_plain 1 2 initial_state) \<noteq>
     fst (GetPipelineLayout build_plain 2 1 initial_state) \<and>
   GetPipelineLayout build_plain 1 2 (snd (GetPipelineLayout build_plain 1 2 initial_state)) =
     GetPipelineLayout build_plain 1 2 initial_state"
proof -
  have k: "fst (GetPipelineLayout build_plain 1 2 initial_state) = 0x20001"
      "fst (GetPipelineLayout build_plain 2 1 initial_state) = 0x10002"
    by (simp_all add: fst_GetPipelineLayout PipelineLayoutKey_def)
  from GetPipelineLayout_same_object_and_distinct_in_range
    [of build_plain 1 2 initial_state 2 1 build_plain initial_state] k
  show ?thesis
    by (simp add: prod_eq_iff)
qed

end
